theory Spec2Isabelle
  imports Complex_Main "HOL-Library.AList" "HOL-Library.Sublist"
begin

section \<open>Python values\<close>

text \<open>
  The two scripts are Python. Strings are modelled as \<open>string\<close> (code points 0 to 255),
  Python's unbounded integers as \<open>int\<close>. A Python \<open>float\<close> is a double: every finite
  double is a rational number, so a finite float is modelled by its exact rational value,
  next to the three special values.
\<close>

datatype py_float = Finite rat | PosInf | NegInf | NaN

text \<open>
  The value tree that \<open>json.loads\<close> returns: \<open>None\<close>, \<open>bool\<close>, \<open>int\<close>, \<open>float\<close>,
  \<open>str\<close>, \<open>list\<close> and \<open>dict\<close>. A dict is the list of its items in insertion order; the
  keys of a Python dict are distinct.
\<close>

datatype json =
    JNull
  | JBool bool
  | JInt int
  | JFloat py_float
  | JStr string
  | JArr "json list"
  | JObj "(string \<times> json) list"

text \<open>The exceptions that the modelled code can meet.\<close>

datatype py_error =
    JSONDecodeError
  | ValueError string
  | TypeError
  | OverflowError
  | AttributeError
  | RecursionError

subsection \<open>Whitespace, \<open>str.strip\<close>\<close>

text \<open>
  \<open>str.isspace\<close> and the regular expression class \<open>\s\<close> (for \<open>str\<close> patterns) agree:
  below code point 256 the whitespace characters are 9 to 13, 28 to 32, 133 and 160.
\<close>

definition py_isspace :: "char \<Rightarrow> bool" where
  "py_isspace c =
     (c \<in> set [CHR 0x09, CHR 0x0A, CHR 0x0B, CHR 0x0C, CHR 0x0D, CHR 0x1C, CHR 0x1D,
                CHR 0x1E, CHR 0x1F, CHR 0x20, CHR 0x85, CHR 0xA0])"

definition py_strip :: "string \<Rightarrow> string" where
  "py_strip s = rev (dropWhile py_isspace (rev (dropWhile py_isspace s)))"

subsection \<open>\<open>int(x)\<close>\<close>

text \<open>
  \<open>int\<close> of a string skips less than \<open>strip\<close> does: the characters 28 to 31 are
  whitespace for \<open>str.isspace\<close>, not for \<open>int\<close>.
\<close>

definition int_isspace :: "char \<Rightarrow> bool" where
  "int_isspace c =
     (c \<in> set [CHR 0x09, CHR 0x0A, CHR 0x0B, CHR 0x0C, CHR 0x0D, CHR 0x20, CHR 0x85, CHR 0xA0])"

definition is_digit :: "char \<Rightarrow> bool" where
  "is_digit c = (c \<in> set ''0123456789'')"

definition digit_val :: "char \<Rightarrow> int" where
  "digit_val c = int (of_char c) - 48"

text \<open>
  Underscores in an integer literal: single ones, between digits only.
  \<open>underscores_ok prev s\<close> scans \<open>s\<close>, \<open>prev\<close> telling whether the character before
  was a digit.
\<close>

fun underscores_ok :: "bool \<Rightarrow> string \<Rightarrow> bool" where
  "underscores_ok prev [] = prev"
| "underscores_ok prev (c # cs) =
     (if c = CHR ''_'' then prev \<and> underscores_ok False cs else underscores_ok True cs)"

text \<open>CPython's default \<open>sys.int_info.default_max_str_digits\<close>.\<close>

definition int_max_str_digits :: nat where
  "int_max_str_digits = 4300"

definition digits_value :: "string \<Rightarrow> int" where
  "digits_value ds = foldl (\<lambda>acc c. 10 * acc + digit_val c) 0 ds"

text \<open>
  \<open>int(s)\<close> for a string, base 10: surrounding whitespace is dropped, then an optional
  sign, then digits with single underscores between them, and nothing else. A literal of
  more than \<open>int_max_str_digits\<close> digits is refused. Every failure is a \<open>ValueError\<close>.
\<close>

definition int_of_str :: "string \<Rightarrow> py_error + int" where
  "int_of_str s =
     (let t = dropWhile int_isspace s;
          neg = (case t of c # _ \<Rightarrow> c = CHR ''-'' | [] \<Rightarrow> False);
          u = (case t of c # cs \<Rightarrow> if c = CHR ''-'' \<or> c = CHR ''+'' then cs else t | [] \<Rightarrow> t);
          body = takeWhile (\<lambda>c. is_digit c \<or> c = CHR ''_'') u;
          rest = dropWhile (\<lambda>c. is_digit c \<or> c = CHR ''_'') u;
          ds = filter is_digit body
      in if \<not> underscores_ok False body
         then Inl (ValueError ''invalid literal for int() with base 10'')
         else if length ds > int_max_str_digits
         then Inl (ValueError ''Exceeds the limit for integer string conversion'')
         else if dropWhile int_isspace rest \<noteq> []
         then Inl (ValueError ''invalid literal for int() with base 10'')
         else Inr (if neg then - digits_value ds else digits_value ds))"

text \<open>\<open>int(f)\<close> for a finite float truncates toward zero.\<close>

definition trunc :: "rat \<Rightarrow> int" where
  "trunc r = (if r < 0 then - \<lfloor>- r\<rfloor> else \<lfloor>r\<rfloor>)"

fun py_int :: "json \<Rightarrow> py_error + int" where
  "py_int JNull = Inl TypeError"
| "py_int (JBool b) = Inr (if b then 1 else 0)"
| "py_int (JInt i) = Inr i"
| "py_int (JFloat (Finite r)) = Inr (trunc r)"
| "py_int (JFloat NaN) = Inl (ValueError ''cannot convert float NaN to integer'')"
| "py_int (JFloat PosInf) = Inl OverflowError"
| "py_int (JFloat NegInf) = Inl OverflowError"
| "py_int (JStr s) = int_of_str s"
| "py_int (JArr xs) = Inl TypeError"
| "py_int (JObj kvs) = Inl TypeError"

subsection \<open>\<open>str(x)\<close>\<close>

text \<open>The decimal digit of a number below 10.\<close>

definition digit_char :: "nat \<Rightarrow> char" where
  "digit_char d = ''0123456789'' ! d"

fun nat_digits :: "nat \<Rightarrow> string" where
  "nat_digits n =
     (if n < 10 then [digit_char n]
      else nat_digits (n div 10) @ [digit_char (n mod 10)])"

definition str_of_int :: "int \<Rightarrow> string" where
  "str_of_int i = (if i < 0 then CHR ''-'' # nat_digits (nat (- i)) else nat_digits (nat i))"

text \<open>
  \<open>str(x)\<close>. For a float, a list and a dict it is \<open>repr(x)\<close>, whose text (shortest
  round-trip digits, quoting) is not modelled: \<open>repr\<close> is a parameter. An \<open>int\<close> that
  \<open>json.loads\<close> returned passed the digit limit when it was read, so its \<open>str\<close> does
  not fail.
\<close>

fun py_str :: "(json \<Rightarrow> string) \<Rightarrow> json \<Rightarrow> string" where
  "py_str repr JNull = ''None''"
| "py_str repr (JBool b) = (if b then ''True'' else ''False'')"
| "py_str repr (JInt i) = str_of_int i"
| "py_str repr (JStr s) = s"
| "py_str repr v = repr v"

subsection \<open>Truth values, \<open>or\<close>, \<open>dict.get\<close>\<close>

fun truthy :: "json \<Rightarrow> bool" where
  "truthy JNull = False"
| "truthy (JBool b) = b"
| "truthy (JInt i) = (i \<noteq> 0)"
| "truthy (JFloat f) = (f \<noteq> Finite 0)"
| "truthy (JStr s) = (s \<noteq> [])"
| "truthy (JArr xs) = (xs \<noteq> [])"
| "truthy (JObj kvs) = (kvs \<noteq> [])"

definition py_or :: "json \<Rightarrow> json \<Rightarrow> json" where
  "py_or a b = (if truthy a then a else b)"

definition dict_get :: "(string \<times> json) list \<Rightarrow> string \<Rightarrow> json \<Rightarrow> json" where
  "dict_get kvs k d = (case map_of kvs k of None \<Rightarrow> d | Some v \<Rightarrow> v)"

section \<open>The response interpreter: \<open>_parse_mappings_json\<close>\<close>

record enrichment =
  sub_region :: string
  affluence_score :: int

type_synonym enrichment_result = "(string \<times> enrichment) list"

subsection \<open>The fenced block\<close>

text \<open>
  The search \<open>re.search(r"```(?:json)?\s*(\{.*\})\s*```", text, re.DOTALL)\<close>,
  returning group 1 of the leftmost match, with the priorities of a backtracking matcher.

  \<open>fence_tail\<close> is the end of the pattern, \<open>\s*```\<close>: the whitespace run is followed by
  a backquote, which is no whitespace, so giving back whitespace never helps.
\<close>

definition fence_tail :: "string \<Rightarrow> bool" where
  "fence_tail s = prefix ''```'' (dropWhile py_isspace s)"

text \<open>
  \<open>.*\}\<close> followed by the tail: \<open>.*\<close> is greedy and, with DOTALL, takes every character,
  so the first success of the matcher is the last closing brace after which the tail
  matches. The result is what \<open>.*\}\<close> consumed.
\<close>

fun fence_body :: "string \<Rightarrow> string option" where
  "fence_body [] = None"
| "fence_body (c # cs) =
     (case fence_body cs of
        Some g \<Rightarrow> Some (c # g)
      | None \<Rightarrow> if c = CHR ''}'' \<and> fence_tail cs then Some [c] else None)"

text \<open>\<open>\s*(\{.*\})\s*```\<close>: the text after the optional language tag.\<close>

definition fence_object :: "string \<Rightarrow> string option" where
  "fence_object s =
     (case dropWhile py_isspace s of
        [] \<Rightarrow> None
      | c # cs \<Rightarrow> if c = CHR ''{'' then map_option (\<lambda>g. c # g) (fence_body cs) else None)"

text \<open>A match starting at the head of \<open>s\<close>: the tag \<open>json\<close> is tried first, then no tag.\<close>

definition fence_match :: "string \<Rightarrow> string option" where
  "fence_match s =
     (if prefix ''```'' s
      then (let r = drop 3 s
            in case (if prefix ''json'' r then fence_object (drop 4 r) else None) of
                 Some g \<Rightarrow> Some g
               | None \<Rightarrow> fence_object r)
      else None)"

fun fence_search :: "string \<Rightarrow> string option" where
  "fence_search [] = fence_match []"
| "fence_search (c # cs) =
     (case fence_match (c # cs) of Some g \<Rightarrow> Some g | None \<Rightarrow> fence_search cs)"

text \<open>Lines 33 to 37: the text handed to \<open>json.loads\<close>.\<close>

definition candidate_text :: "string \<Rightarrow> string" where
  "candidate_text text =
     (let text1 = py_strip text
      in case fence_search text1 of Some g \<Rightarrow> g | None \<Rightarrow> text1)"

subsection \<open>From the document to the result\<close>

text \<open>
  Lines 50 to 53: \<open>int(aff)\<close> under \<open>except (TypeError, ValueError)\<close>.
  \<open>JSONDecodeError\<close> is a subclass of \<open>ValueError\<close>.
\<close>

fun caught :: "py_error \<Rightarrow> bool" where
  "caught TypeError = True"
| "caught (ValueError m) = True"
| "caught JSONDecodeError = True"
| "caught e = False"

definition coerce_score :: "json \<Rightarrow> py_error + int" where
  "coerce_score aff =
     (case py_int aff of
        Inr n \<Rightarrow> Inr n
      | Inl e \<Rightarrow> if caught e then Inr 5 else Inl e)"

text \<open>Lines 44 to 55: the body of the loop, on the result so far.\<close>

definition process_item ::
  "(json \<Rightarrow> string) \<Rightarrow> enrichment_result \<Rightarrow> json \<Rightarrow> py_error + enrichment_result" where
  "process_item repr result item =
     (case item of
        JObj kvs \<Rightarrow>
          (let name = dict_get kvs ''original_name'' JNull;
               sub = dict_get kvs ''sub_region'' (JStr ''Unknown'');
               aff = dict_get kvs ''affluence_score'' (JInt 5)
           in if name \<noteq> JNull
              then (case coerce_score aff of
                      Inl e \<Rightarrow> Inl e
                    | Inr a \<Rightarrow>
                        Inr (AList.update (py_str repr name)
                               \<lparr>sub_region = py_str repr sub,
                                affluence_score = max 1 (min 10 a)\<rparr> result))
              else Inr result)
      | _ \<Rightarrow> Inr result)"

fun process_items ::
  "(json \<Rightarrow> string) \<Rightarrow> enrichment_result \<Rightarrow> json list \<Rightarrow> py_error + enrichment_result" where
  "process_items repr result [] = Inr result"
| "process_items repr result (item # items) =
     (case process_item repr result item of
        Inl e \<Rightarrow> Inl e
      | Inr result' \<Rightarrow> process_items repr result' items)"

text \<open>\<open>isinstance(x, list)\<close>.\<close>

fun is_list :: "json \<Rightarrow> bool" where
  "is_list (JArr xs) = True"
| "is_list v = False"

text \<open>
  Line 39: \<open>data.get("mappings") or data.get("mapping") or []\<close>, on the items of
  \<open>data\<close>. A key that is absent reads as \<open>None\<close>.
\<close>

definition mappings_of :: "(string \<times> json) list \<Rightarrow> json" where
  "mappings_of kvs =
     py_or (py_or (dict_get kvs ''mappings'' JNull) (dict_get kvs ''mapping'' JNull)) (JArr [])"

definition expected_array :: string where
  "expected_array = ''Expected '' @ [CHR 0x27] @ ''mappings'' @ [CHR 0x27] @ '' array''"

text \<open>
  Lines 39 to 56. \<open>data.get\<close> on a value that is no dict raises \<open>AttributeError\<close>.
\<close>

definition build_result :: "(json \<Rightarrow> string) \<Rightarrow> json \<Rightarrow> py_error + enrichment_result" where
  "build_result repr data =
     (case data of
        JObj kvs \<Rightarrow>
          (let mappings = mappings_of kvs
           in if \<not> is_list mappings then Inl (ValueError expected_array)
              else process_items repr [] (case mappings of JArr items \<Rightarrow> items | _ \<Rightarrow> []))
      | _ \<Rightarrow> Inl AttributeError)"

text \<open>
  The whole function. \<open>json.loads\<close> is the library's decoder: it is the parameter
  \<open>loads\<close>, so that every theorem holds for whatever the decoder returns or raises.
\<close>

definition parse_mappings_json ::
  "(string \<Rightarrow> py_error + json) \<Rightarrow> (json \<Rightarrow> string) \<Rightarrow> string
     \<Rightarrow> py_error + enrichment_result" where
  "parse_mappings_json loads repr text =
     (case loads (candidate_text text) of
        Inl e \<Rightarrow> Inl e
      | Inr data \<Rightarrow> build_result repr data)"

text \<open>
  The key under which the loop body stores an element (lines 44 to 49 and 55), \<open>None\<close>
  for an element it skips: one that is no dict, or whose \<open>original_name\<close> is absent or
  null.
\<close>

definition stored_key :: "(json \<Rightarrow> string) \<Rightarrow> json \<Rightarrow> string option" where
  "stored_key repr item =
     (case item of
        JObj kvs \<Rightarrow>
          (let name = dict_get kvs ''original_name'' JNull
           in if name \<noteq> JNull then Some (py_str repr name) else None)
      | _ \<Rightarrow> None)"

text \<open>
  A decoder given by a table of texts and the documents \<open>json.loads\<close> returns for them,
  raising on every other text: the decoder of the examples.
\<close>

definition table_loads :: "(string \<times> json) list \<Rightarrow> string \<Rightarrow> py_error + json" where
  "table_loads tab t = (case map_of tab t of Some d \<Rightarrow> Inr d | None \<Rightarrow> Inl JSONDecodeError)"

text \<open>
  A \<open>repr\<close> for the examples: none of them has a float, a list or a dict where \<open>str\<close>
  is applied, so it is never called there.
\<close>

definition example_repr :: "json \<Rightarrow> string" where
  "example_repr v = ''?''"

subsection \<open>Example responses\<close>

text \<open>
  Texts of responses and, for each, the document that \<open>json.loads\<close> returns for it.
  The first is the example of the specification.
\<close>

definition example_json :: string where
  \<open>example_json =
     ''{"mappings":[{"original_name":"SoHo","sub_region":"Lower Manhattan","affluence_score":"9"},''
     @ ''{"original_name":"Flatbush","affluence_score":150}]}''\<close>

definition example_text :: string where
  "example_text = ''Sure! ```json'' @ [CHR 0x0A] @ example_json @ [CHR 0x0A] @ ''```''"

definition example_doc :: json where
  "example_doc =
     JObj [(''mappings'', JArr
       [JObj [(''original_name'', JStr ''SoHo''), (''sub_region'', JStr ''Lower Manhattan''),
              (''affluence_score'', JStr ''9'')],
        JObj [(''original_name'', JStr ''Flatbush''), (''affluence_score'', JInt 150)]])]"



text \<open>An object with a fenced block inside one of its strings.\<close>

definition inner_fence_text :: string where
  \<open>inner_fence_text = ''{"mappings":[{"original_name":"a"}],"x":"```{}```"}''\<close>

definition inner_fence_doc :: json where
  "inner_fence_doc =
     JObj [(''mappings'', JArr [JObj [(''original_name'', JStr ''a'')]]),
           (''x'', JStr ''```{}```'')]"



text \<open>
  An element whose score is the number \<open>1e999\<close>: it is beyond the range of a double, and
  \<open>json.loads\<close> returns the float \<open>inf\<close> for it.
\<close>

definition huge_score_text :: string where
  \<open>huge_score_text = ''{"mappings":[{"original_name":"a","affluence_score":1e999}]}''\<close>

definition huge_score_doc :: json where
  "huge_score_doc =
     JObj [(''mappings'', JArr
       [JObj [(''original_name'', JStr ''a''), (''affluence_score'', JFloat PosInf)]])]"



section \<open>The model selector: \<open>_pick_model\<close>\<close>

text \<open>
  \<open>ollama.list()\<close> is the input: \<open>None\<close> when the response has no \<open>models\<close>, else the
  \<open>model\<close> attribute of each listed model (\<open>None\<close> when it has none). Line 24 keeps the
  names that are truthy.
\<close>

definition model_names :: "string option list option \<Rightarrow> string list" where
  "model_names resp =
     (let models = (case resp of None \<Rightarrow> [] | Some ms \<Rightarrow> ms)
      in concat (map (\<lambda>m. case m of None \<Rightarrow> [] | Some n \<Rightarrow> if n \<noteq> [] then [n] else []) models))"

text \<open>Line 26: the test of one name. \<open>a in b\<close> on strings is \<open>sublist a b\<close>.\<close>

definition name_matches :: "string \<Rightarrow> string \<Rightarrow> bool" where
  "name_matches preferred n =
     (sublist preferred n \<or>
      (if CHR '':'' \<in> set preferred
       then sublist (takeWhile (\<lambda>c. c \<noteq> CHR '':'') preferred) n
       else sublist preferred n))"

text \<open>Lines 25 to 27: the loop, \<open>None\<close> when it returns nothing.\<close>

fun first_match :: "string \<Rightarrow> string list \<Rightarrow> string option" where
  "first_match preferred [] = None"
| "first_match preferred (n # ns) =
     (if name_matches preferred n then Some n else first_match preferred ns)"

definition pick_from :: "string list \<Rightarrow> string \<Rightarrow> string" where
  "pick_from names preferred =
     (case first_match preferred names of
        Some n \<Rightarrow> n
      | None \<Rightarrow> (case names of [] \<Rightarrow> preferred | n # _ \<Rightarrow> n))"

definition pick_model :: "string option list option \<Rightarrow> string \<Rightarrow> string" where
  "pick_model resp preferred = pick_from (model_names resp) preferred"

section \<open>The upload agent: \<open>main\<close> of \<open>upload_to_gcs.py\<close>\<close>

text \<open>
  What the run changes: the process environment, the files on disk (path to contents),
  the objects stored in the bucket (key and uploaded path), the printed lines.
\<close>

record world =
  environ :: "string \<rightharpoonup> string"
  files :: "string \<rightharpoonup> string"
  blobs :: "(string \<times> string) list"
  stdout :: "string list"

text \<open>
  What the run meets outside: whether the key file can be written, whether the storage
  client can be imported and built, the reports directory and its entries (\<open>None\<close> when
  the directory does not exist; else name, \<open>is_file\<close>, and whether the upload of it
  succeeds), and the date of the run.
\<close>

record services =
  can_write :: bool
  client_ok :: bool
  report_dir :: string
  listing :: "(string \<times> bool \<times> bool) list option"
  utc_date :: string

datatype run_end = Returned | Raised string

definition creds_path :: string where
  "creds_path = ''/tmp/gcp-sa-key.json''"

definition print :: "string \<Rightarrow> world \<Rightarrow> world" where
  "print line w = w\<lparr>stdout := stdout w @ [line]\<rparr>"

text \<open>Lines 33 to 37. An upload that fails raises, and the loop ends there.\<close>

fun upload_files ::
  "string \<Rightarrow> string \<Rightarrow> string \<Rightarrow> (string \<times> bool \<times> bool) list \<Rightarrow> world
     \<Rightarrow> run_end \<times> world" where
  "upload_files bucket_name pre dir [] w = (Returned, w)"
| "upload_files bucket_name pre dir ((name, is_file, ok) # entries) w =
     (if is_file
      then (if ok
            then upload_files bucket_name pre dir entries
                   (print (''Uploaded '' @ name @ '' -> gs://'' @ bucket_name @ ''/'' @ pre
                           @ ''/'' @ name)
                      (w\<lparr>blobs := blobs w @ [(pre @ ''/'' @ name, dir @ ''/'' @ name)]\<rparr>))
            else (Raised ''upload_from_filename'', w))
      else upload_files bucket_name pre dir entries w)"

text \<open>Lines 7 to 39. A variable of the environment that is unset or empty is falsy.\<close>

definition main :: "services \<Rightarrow> world \<Rightarrow> run_end \<times> world" where
  "main s w =
     (case environ w ''GCS_BUCKET'' of
        None \<Rightarrow> (Returned, print ''GCS_BUCKET not set; skipping upload.'' w)
      | Some bucket_name \<Rightarrow>
          if bucket_name = [] then (Returned, print ''GCS_BUCKET not set; skipping upload.'' w)
          else
            (case environ w ''GOOGLE_APPLICATION_CREDENTIALS_JSON'' of
               None \<Rightarrow>
                 (Returned,
                  print ''GOOGLE_APPLICATION_CREDENTIALS_JSON not set; skipping upload.'' w)
             | Some creds_json \<Rightarrow>
                 if creds_json = []
                 then (Returned,
                       print ''GOOGLE_APPLICATION_CREDENTIALS_JSON not set; skipping upload.'' w)
                 else if \<not> can_write s then (Raised ''write_text'', w)
                 else
                   (let w1 = w\<lparr>files := (files w)(creds_path \<mapsto> creds_json)\<rparr>;
                        w2 = w1\<lparr>environ :=
                                 (environ w1)(''GOOGLE_APPLICATION_CREDENTIALS'' \<mapsto> creds_path)\<rparr>
                    in if \<not> client_ok s then (Raised ''storage.Client'', w2)
                       else
                         (case listing s of
                            None \<Rightarrow>
                              (Returned,
                               print (''Reports dir '' @ report_dir s
                                      @ '' not found; nothing to upload.'') w2)
                          | Some entries \<Rightarrow>
                              (case upload_files bucket_name
                                      (''uncertainty_reports/'' @ utc_date s) (report_dir s)
                                      entries w2 of
                                 (Raised e, w3) \<Rightarrow> (Raised e, w3)
                               | (Returned, w3) \<Rightarrow>
                                   (Returned,
                                    print ''Upload complete.''
                                      (w3\<lparr>files := (files w3)(creds_path := None)\<rparr>)))))))"

subsection \<open>An example run\<close>

text \<open>
  Both variables of the environment are set, the key file can be written, the client can
  be built, and the reports directory does not exist.
\<close>

definition configured :: world where
  \<open>configured =
     \<lparr>environ = [''GCS_BUCKET'' \<mapsto> ''reports-bucket'',
                 ''GOOGLE_APPLICATION_CREDENTIALS_JSON'' \<mapsto> ''{"private_key":"k"}''],
      files = Map.empty, blobs = [], stdout = []\<rparr>\<close>

definition no_reports :: services where
  "no_reports =
     \<lparr>can_write = True, client_ok = True, report_dir = ''/app/reports'', listing = None,
      utc_date = ''2026-01-01''\<rparr>"

section \<open>Evaluation of the definitions\<close>

lemmas eval_parse =
  parse_mappings_json_def table_loads_def build_result_def mappings_of_def py_or_def
  dict_get_def process_item_def coerce_score_def

lemmas eval_text =
  candidate_text_def py_strip_def py_isspace_def fence_match_def fence_object_def
  fence_tail_def

lemmas eval_int =
  int_of_str_def int_isspace_def is_digit_def digits_value_def digit_val_def
  int_max_str_digits_def str_of_int_def digit_char_def

lemma example_candidate: "candidate_text example_text = example_json"
  by (simp add: eval_text example_text_def example_json_def)

lemma example_result:
  "parse_mappings_json (table_loads [(example_json, example_doc)]) example_repr example_text =
     Inr [(''SoHo'', \<lparr>sub_region = ''Lower Manhattan'', affluence_score = 9\<rparr>),
          (''Flatbush'', \<lparr>sub_region = ''Unknown'', affluence_score = 10\<rparr>)]"
  by (simp add: eval_parse example_candidate example_doc_def eval_int)

lemma example_json_search: "fence_search example_json = None"
  by (simp add: example_json_def fence_match_def)


lemma inner_fence_bare: "candidate_text inner_fence_text = ''{}''"
  by (simp add: eval_text inner_fence_text_def)

lemma inner_fence_wrapped:
  "candidate_text (''```json'' @ [CHR 0x0A] @ inner_fence_text @ [CHR 0x0A] @ ''```'')
     = inner_fence_text"
  by (simp add: eval_text inner_fence_text_def)


lemma huge_score_candidate: "candidate_text huge_score_text = huge_score_text"
  by (simp add: eval_text huge_score_text_def)



section \<open>One round of the loop\<close>

lemma set_update_subset: "set (AList.update k v al) \<subseteq> insert (k, v) (set al)"
  by (induct al) auto


lemma process_item_skipped:
  "stored_key repr item = None \<Longrightarrow> process_item repr result item = Inr result"
  by (auto simp: stored_key_def process_item_def Let_def split: json.splits if_splits)

lemma process_item_stored:
  assumes "stored_key repr item = Some k" "process_item repr result item = Inr res'"
  shows "\<exists>v. res' = AList.update k v result"
  using assms
  by (auto simp: stored_key_def process_item_def Let_def split: json.splits if_splits sum.splits)


lemma process_item_other_key:
  assumes "process_item repr result item = Inr res'" "stored_key repr item \<noteq> Some k"
  shows "map_of res' k = map_of result k"
proof (cases "stored_key repr item")
  case None
  with assms process_item_skipped[OF None, of result] show ?thesis by simp
next
  case (Some k')
  from process_item_stored[OF Some assms(1)] obtain v where "res' = AList.update k' v result" ..
  with Some assms(2) show ?thesis by (simp add: update_conv')
qed

subsection \<open>The only error of the loop\<close>

lemma int_of_str_cases:
  "(\<exists>n. int_of_str s = Inr n) \<or> (\<exists>m. int_of_str s = Inl (ValueError m))"
  by (simp add: int_of_str_def Let_def)

lemma coerce_score_error:
  "coerce_score v = Inl e \<Longrightarrow> e = OverflowError \<and> v \<in> {JFloat PosInf, JFloat NegInf}"
proof (cases v)
  case (JFloat f)
  assume "coerce_score v = Inl e"
  with JFloat show ?thesis by (cases f) (simp_all add: coerce_score_def)
next
  case (JStr s)
  assume "coerce_score v = Inl e"
  with JStr int_of_str_cases[of s] show ?thesis by (auto simp: coerce_score_def)
qed (simp_all add: coerce_score_def split: if_splits)


lemma process_item_error:
  "process_item repr result item = Inl e \<Longrightarrow> e = OverflowError"
  by (auto simp: process_item_def Let_def split: json.splits if_splits sum.splits
      dest: coerce_score_error)

section \<open>The whole loop\<close>

lemma process_items_append:
  "process_items repr result (xs @ ys) =
     (case process_items repr result xs of
        Inl e \<Rightarrow> Inl e
      | Inr r \<Rightarrow> process_items repr r ys)"
  by (induction xs arbitrary: result) (auto split: sum.splits)

lemma process_items_error:
  "process_items repr result items = Inl e \<Longrightarrow> e = OverflowError"
  by (induction items arbitrary: result) (auto split: sum.splits dest: process_item_error)

lemma process_items_other_keys:
  assumes "process_items repr result items = Inr res"
    and "\<forall>p \<in> set items. stored_key repr p \<noteq> Some k"
  shows "map_of res k = map_of result k"
  using assms
proof (induction items arbitrary: result)
  case Nil
  then show ?case by simp
next
  case (Cons item items)
  from Cons.prems(1) obtain r1 where r1: "process_item repr result item = Inr r1"
    and rest: "process_items repr r1 items = Inr res"
    by (auto split: sum.splits)
  from Cons.IH[OF rest] Cons.prems(2) process_item_other_key[OF r1, of k] show ?case by simp
qed



text \<open>
  The record that a round stores under a key is the one the function returns under that
  key, unless a later element of the array has the same key.
\<close>

theorem last_write_wins:
  assumes "loads (candidate_text text) = Inr (JObj d)"
    and "mappings_of d = JArr (pre @ item # post)"
    and "parse_mappings_json loads repr text = Inr res"
    and "\<And>result. process_item repr result item = Inr (AList.update k v result)"
    and "\<forall>p \<in> set post. stored_key repr p \<noteq> Some k"
  shows "map_of res k = Some v"
proof -
  from assms(1-3) have all: "process_items repr [] (pre @ item # post) = Inr res"
    by (simp add: parse_mappings_json_def build_result_def)
  then obtain r1 where r1: "process_items repr [] pre = Inr r1"
    and rest: "process_items repr (AList.update k v r1) post = Inr res"
    using assms(4) by (auto simp: process_items_append split: sum.splits)
  from process_items_other_keys[OF rest assms(5)] show ?thesis by (simp add: update_conv')
qed

text \<open>A document that is no object: \<open>data.get\<close> raises.\<close>

lemma build_result_not_object:
  "build_result repr (JArr xs) = Inl AttributeError"
  "build_result repr (JStr s) = Inl AttributeError"
  "build_result repr (JInt i) = Inl AttributeError"
  "build_result repr JNull = Inl AttributeError"
  by (simp_all add: build_result_def)

section \<open>The score of every returned record\<close>

lemma process_item_range:
  assumes "process_item repr result item = Inr res'"
    and "\<forall>(k, r) \<in> set result. 1 \<le> affluence_score r \<and> affluence_score r \<le> 10"
  shows "\<forall>(k, r) \<in> set res'. 1 \<le> affluence_score r \<and> affluence_score r \<le> 10"
proof (cases item)
  case (JObj kvs)
  show ?thesis
  proof (cases "dict_get kvs ''original_name'' JNull = JNull")
    case True
    with JObj assms show ?thesis by (simp add: process_item_def)
  next
    case False
    with JObj assms(1) obtain a where
      res': "res' = AList.update (py_str repr (dict_get kvs ''original_name'' JNull))
               \<lparr>sub_region = py_str repr (dict_get kvs ''sub_region'' (JStr ''Unknown'')),
                affluence_score = max 1 (min 10 a)\<rparr> result"
      by (auto simp: process_item_def Let_def split: sum.splits)
    show ?thesis
      using assms(2) set_update_subset[of _ _ result] unfolding res' by fastforce
  qed
qed (use assms in \<open>simp_all add: process_item_def\<close>)

lemma process_items_range:
  assumes "process_items repr result items = Inr res"
    and "\<forall>(k, r) \<in> set result. 1 \<le> affluence_score r \<and> affluence_score r \<le> 10"
  shows "\<forall>(k, r) \<in> set res. 1 \<le> affluence_score r \<and> affluence_score r \<le> 10"
  using assms
proof (induction items arbitrary: result)
  case Nil
  then show ?case by simp
next
  case (Cons item items)
  from Cons.prems(1) obtain r1 where
    r1: "process_item repr result item = Inr r1" and rest: "process_items repr r1 items = Inr res"
    by (auto split: sum.splits)
  from process_item_range[OF r1 Cons.prems(2)] Cons.IH[OF rest] show ?case by blast
qed

lemma build_result_items:
  assumes "build_result repr data = Inr res"
  shows "\<exists>items. process_items repr [] items = Inr res"
  using assms
  by (auto simp: build_result_def Let_def split: json.splits if_splits)

text \<open>
  Claim C1. Whatever the input text and whatever the decoder returns for it: when
  \<open>_parse_mappings_json\<close> returns, every record of the returned mapping has an
  \<open>affluence_score\<close> that is an integer (by its type) between 1 and 10.
\<close>

theorem C1_score_in_range:
  assumes "parse_mappings_json loads repr text = Inr res" and "(k, r) \<in> set res"
  shows "1 \<le> affluence_score r \<and> affluence_score r \<le> 10"
proof -
  from assms(1) obtain data where "build_result repr data = Inr res"
    by (auto simp: parse_mappings_json_def split: sum.splits)
  then obtain items where "process_items repr [] items = Inr res"
    using build_result_items by blast
  from process_items_range[OF this] assms(2) show ?thesis by auto
qed

text \<open>The example of the specification: the score 150 of Flatbush is stored as 10.\<close>

theorem C1_score_in_range_witness:
  "parse_mappings_json (table_loads [(example_json, example_doc)]) example_repr example_text =
     Inr [(''SoHo'', \<lparr>sub_region = ''Lower Manhattan'', affluence_score = 9\<rparr>),
          (''Flatbush'', \<lparr>sub_region = ''Unknown'', affluence_score = 10\<rparr>)]
   \<and> 1 \<le> affluence_score \<lparr>sub_region = ''Unknown'', affluence_score = 10\<rparr>
   \<and> affluence_score \<lparr>sub_region = ''Unknown'', affluence_score = 10\<rparr> \<le> 10"
  using C1_score_in_range[OF example_result, of "''Flatbush''"
      "\<lparr>sub_region = ''Unknown'', affluence_score = 10\<rparr>"] example_result
  by simp

section \<open>The \<open>mappings\<close> array\<close>




section \<open>The model selector\<close>

text \<open>
  The test of line 26 is the test for the family alone: a name that contains the
  preferred name contains its family.
\<close>

lemma family_sublist: "sublist (takeWhile P xs) xs"
  by (metis prefix_imp_sublist takeWhile_dropWhile_id prefixI)

lemma name_matches_family:
  "name_matches preferred n \<longleftrightarrow>
     sublist (if CHR '':'' \<in> set preferred
              then takeWhile (\<lambda>c. c \<noteq> CHR '':'') preferred else preferred) n"
  using sublist_order.order_trans[OF family_sublist[of "\<lambda>c. c \<noteq> CHR '':''" preferred], of n]
  by (auto simp: name_matches_def)

lemma first_match_find: "first_match preferred names = find (name_matches preferred) names"
  by (induction names) auto

text \<open>
  What \<open>_pick_model\<close> returns: the first name that contains the family, else the first
  name, else the preferred name.
\<close>

theorem pick_from_first_family:
  "pick_from names preferred =
     (case find (sublist (if CHR '':'' \<in> set preferred
                          then takeWhile (\<lambda>c. c \<noteq> CHR '':'') preferred else preferred)) names of
        Some n \<Rightarrow> n
      | None \<Rightarrow> (case names of [] \<Rightarrow> preferred | n # _ \<Rightarrow> n))"
proof -
  have "name_matches preferred = sublist (if CHR '':'' \<in> set preferred
                          then takeWhile (\<lambda>c. c \<noteq> CHR '':'') preferred else preferred)"
    by (rule ext) (rule name_matches_family)
  then show ?thesis by (simp add: pick_from_def first_match_find)
qed

text \<open>
  Claim C3 says that an entry containing the whole preferred name is returned before any
  entry that contains the family only. The code does not: with the models
  \<open>llama3.1:70b\<close> and \<open>llama3.1:8b\<close> listed in this order and \<open>llama3.1:8b\<close>
  preferred, \<open>_pick_model\<close> returns \<open>llama3.1:70b\<close>, although the preferred model is
  available.
\<close>

theorem C3_family_match_first:
  "pick_model (Some [Some ''llama3.1:70b'', Some ''llama3.1:8b'']) ''llama3.1:8b''
     = ''llama3.1:70b''"
  by (simp add: pick_model_def model_names_def pick_from_def name_matches_def)

section \<open>The fenced block\<close>

lemma not_space_simps:
  "\<not> py_isspace (CHR ''{'')" "\<not> py_isspace (CHR ''}'')" "\<not> py_isspace (CHR 0x60)"
  "\<not> py_isspace (CHR ''j'')"
  by (simp_all add: py_isspace_def)

lemma dropWhile_space_append:
  "list_all py_isspace w \<Longrightarrow> dropWhile py_isspace (w @ s) = dropWhile py_isspace s"
  by (simp add: list_all_iff)

lemma py_strip_around:
  assumes "list_all py_isspace w1" "list_all py_isspace w4" "\<not> py_isspace a" "\<not> py_isspace b"
  shows "py_strip (w1 @ a # xs @ b # w4) = a # xs @ [b]"
proof -
  have "dropWhile py_isspace (w1 @ a # xs @ b # w4) = a # xs @ b # w4"
    using assms(1,3) by (simp add: dropWhile_space_append)
  moreover have "dropWhile py_isspace (rev w4 @ b # rev xs @ [a]) = b # rev xs @ [a]"
    using assms(2,4) by (simp add: dropWhile_space_append)
  ultimately show ?thesis by (simp add: py_strip_def)
qed

lemma fence_body_none: "CHR ''}'' \<notin> set s \<Longrightarrow> fence_body s = None"
  by (induction s) auto

lemma fence_body_last:
  "fence_body rest = None \<Longrightarrow> fence_tail rest \<Longrightarrow>
   fence_body (xs @ CHR ''}'' # rest) = Some (xs @ [CHR ''}''])"
  by (induction xs) auto

lemma space_not_brace: "list_all py_isspace w \<Longrightarrow> CHR ''}'' \<notin> set w"
  using not_space_simps(2) by (auto simp: list_all_iff)

lemma fence_object_wrapped:
  assumes "list_all py_isspace w2" "list_all py_isspace w3"
  shows "fence_object (w2 @ CHR ''{'' # mid @ CHR ''}'' # w3 @ ''```'')
           = Some (CHR ''{'' # mid @ [CHR ''}''])"
proof -
  have tail: "fence_tail (w3 @ ''```'')"
    using assms(2) by (simp add: fence_tail_def dropWhile_space_append not_space_simps)
  have none: "fence_body (w3 @ ''```'') = None"
    using space_not_brace[OF assms(2)] by (intro fence_body_none) simp
  have "dropWhile py_isspace (w2 @ CHR ''{'' # mid @ CHR ''}'' # w3 @ ''```'')
          = CHR ''{'' # mid @ CHR ''}'' # w3 @ ''```''"
    using assms(1) by (simp add: dropWhile_space_append not_space_simps)
  then show ?thesis
    using fence_body_last[OF none tail, of mid] by (simp add: fence_object_def)
qed

lemma no_tag_prefix:
  assumes "list_all py_isspace w2"
  shows "\<not> prefix ''json'' (w2 @ CHR ''{'' # s)"
proof (cases w2)
  case Nil
  then show ?thesis by simp
next
  case (Cons c cs)
  with assms have "py_isspace c" by simp
  then have "c \<noteq> CHR ''j''" using not_space_simps(4) by auto
  with Cons show ?thesis by simp
qed

lemma fence_match_wrapped:
  assumes "tag = [] \<or> tag = ''json''"
    and "list_all py_isspace w2" "list_all py_isspace w3"
  shows "fence_match (''```'' @ tag @ w2 @ CHR ''{'' # mid @ CHR ''}'' # w3 @ ''```'')
           = Some (CHR ''{'' # mid @ [CHR ''}''])"
  using assms(1)
proof
  assume "tag = []"
  then show ?thesis
    using no_tag_prefix[OF assms(2)] fence_object_wrapped[OF assms(2,3), of mid]
    by (simp add: fence_match_def)
next
  assume "tag = ''json''"
  then show ?thesis
    using fence_object_wrapped[OF assms(2,3), of mid]
    by (simp add: fence_match_def)
qed

text \<open>From a fenced object, the search takes the object.\<close>

lemma candidate_text_wrapped:
  assumes "tag = [] \<or> tag = ''json''"
    and "list_all py_isspace w1" "list_all py_isspace w2"
    and "list_all py_isspace w3" "list_all py_isspace w4"
  shows "candidate_text (w1 @ ''```'' @ tag @ w2 @ CHR ''{'' # mid @ CHR ''}'' # w3 @ ''```'' @ w4)
           = CHR ''{'' # mid @ [CHR ''}'']"
proof -
  let ?inner = "''``'' @ tag @ w2 @ CHR ''{'' # mid @ CHR ''}'' # w3 @ ''``''"
  have "py_strip (w1 @ CHR 0x60 # ?inner @ CHR 0x60 # w4) = CHR 0x60 # ?inner @ [CHR 0x60]"
    using assms(2,5) by (intro py_strip_around) (simp_all add: not_space_simps)
  then have strip:
    "py_strip (w1 @ ''```'' @ tag @ w2 @ CHR ''{'' # mid @ CHR ''}'' # w3 @ ''```'' @ w4)
       = ''```'' @ tag @ w2 @ CHR ''{'' # mid @ CHR ''}'' # w3 @ ''```''"
    by simp
  have "fence_search (''```'' @ tag @ w2 @ CHR ''{'' # mid @ CHR ''}'' # w3 @ ''```'')
          = Some (CHR ''{'' # mid @ [CHR ''}''])"
    using fence_match_wrapped[OF assms(1,3,4), of mid] by simp
  with strip show ?thesis by (simp add: candidate_text_def)
qed

text \<open>A bare object is taken as it is only when the search finds nothing in it.\<close>

lemma candidate_text_bare:
  assumes "fence_search (CHR ''{'' # mid @ [CHR ''}'']) = None"
    and "list_all py_isspace b1" "list_all py_isspace b2"
  shows "candidate_text (b1 @ CHR ''{'' # mid @ CHR ''}'' # b2) = CHR ''{'' # mid @ [CHR ''}'']"
proof -
  have "py_strip (b1 @ CHR ''{'' # mid @ CHR ''}'' # b2) = CHR ''{'' # mid @ [CHR ''}'']"
    using assms(2,3) by (intro py_strip_around) (simp_all add: not_space_simps)
  with assms(1) show ?thesis by (simp add: candidate_text_def)
qed

text \<open>
  Claim C4 as stated fails. The search for a fenced block runs on the bare text too: a
  bare object with a fenced block inside one of its strings is replaced by the braces
  found there, here \<open>{}\<close>, and the result is empty; the same object in a fence is taken
  whole, and the result has its entry.
\<close>

theorem C4_counterexample:
  "parse_mappings_json (table_loads [(inner_fence_text, inner_fence_doc), (''{}'', JObj [])])
       example_repr (''```json'' @ [CHR 0x0A] @ inner_fence_text @ [CHR 0x0A] @ ''```'')
     = Inr [(''a'', \<lparr>sub_region = ''Unknown'', affluence_score = 5\<rparr>)]
   \<and> parse_mappings_json (table_loads [(inner_fence_text, inner_fence_doc), (''{}'', JObj [])])
       example_repr inner_fence_text
     = Inr []"
  by (simp only: parse_mappings_json_def inner_fence_bare inner_fence_wrapped)
     (simp add: eval_parse inner_fence_text_def inner_fence_doc_def)

text \<open>
  Claim C4, amended. For every text that starts with \<open>{\<close> and ends with \<open>}\<close>, as a JSON
  object does, and in which the search for a fenced block finds nothing (a text without
  three backquotes in a row, for one): the function applied to the text in a fence, with
  or without the tag \<open>json\<close> and with any whitespace around the fence and inside it,
  returns the same result, or raises the same error, as applied to the bare text, with
  any whitespace around it.
\<close>

theorem C4_fenced_equals_bare:
  assumes "fence_search (CHR ''{'' # mid @ [CHR ''}'']) = None"
    and "tag = [] \<or> tag = ''json''"
    and "list_all py_isspace w1" "list_all py_isspace w2"
    and "list_all py_isspace w3" "list_all py_isspace w4"
    and "list_all py_isspace b1" "list_all py_isspace b2"
  shows "parse_mappings_json loads repr
           (w1 @ ''```'' @ tag @ w2 @ (CHR ''{'' # mid @ [CHR ''}'']) @ w3 @ ''```'' @ w4)
         = parse_mappings_json loads repr (b1 @ (CHR ''{'' # mid @ [CHR ''}'']) @ b2)"
  using candidate_text_wrapped[OF assms(2-6), of mid] candidate_text_bare[OF assms(1,7,8)]
  by (simp add: parse_mappings_json_def)

text \<open>The example of the specification, in a fence and bare.\<close>

theorem C4_fenced_equals_bare_witness:
  "parse_mappings_json (table_loads [(example_json, example_doc)]) example_repr
     (''  ```json'' @ [CHR 0x0A] @ example_json @ [CHR 0x0A] @ ''``` '')
   = parse_mappings_json (table_loads [(example_json, example_doc)]) example_repr example_json"
  using C4_fenced_equals_bare[of
      \<open>''"mappings":[{"original_name":"SoHo","sub_region":"Lower Manhattan","affluence_score":"9"},''
       @ ''{"original_name":"Flatbush","affluence_score":150}]''\<close>
      "''json''" "''  ''" "[CHR 0x0A]" "[CHR 0x0A]" "'' ''" "[]" "[]"
      "table_loads [(example_json, example_doc)]" example_repr]
    example_json_search
  by (simp add: example_json_def py_isspace_def)

section \<open>What is stored for one element\<close>









section \<open>Errors from the elements\<close>

text \<open>
  Claim C7 says that no content of an element makes the call fail. The code catches
  \<open>TypeError\<close> and \<open>ValueError\<close> around \<open>int(aff)\<close>, and \<open>int\<close> of an infinite float
  raises \<open>OverflowError\<close>: for the score \<open>1e999\<close> the call raises it.
\<close>

theorem C7_overflow_not_caught:
  "parse_mappings_json (table_loads [(huge_score_text, huge_score_doc)]) example_repr
       huge_score_text
     = Inl OverflowError"
  by (simp only: parse_mappings_json_def huge_score_candidate)
     (simp add: eval_parse huge_score_doc_def)

section \<open>The keys of the result\<close>






section \<open>The key file of the upload agent\<close>

lemma upload_files_files:
  "files (snd (upload_files bucket_name pre dir entries w)) = files w"
  by (induction bucket_name pre dir entries w rule: upload_files.induct)
     (simp_all add: print_def)

lemma upload_files_returns:
  "fst (upload_files bucket_name pre dir entries w) = Returned
     \<longleftrightarrow> list_all (\<lambda>(name, is_file, ok). is_file \<longrightarrow> ok) entries"
  by (induction bucket_name pre dir entries w rule: upload_files.induct) simp_all

text \<open>
  Once the key file is written, it is removed on one path only: the client is built, the
  reports directory exists, and every upload succeeds. On every other path it stays.
\<close>

theorem key_file_after_main:
  assumes "environ w ''GCS_BUCKET'' = Some bucket_name" "bucket_name \<noteq> []"
    and "environ w ''GOOGLE_APPLICATION_CREDENTIALS_JSON'' = Some creds_json" "creds_json \<noteq> []"
    and "can_write s"
  shows "files (snd (main s w)) creds_path =
           (if client_ok s \<and> (\<exists>entries. listing s = Some entries
                  \<and> list_all (\<lambda>(name, is_file, ok). is_file \<longrightarrow> ok) entries)
            then None else Some creds_json)"
proof (cases "client_ok s")
  case False
  with assms show ?thesis by (simp add: main_def Let_def)
next
  case True
  show ?thesis
  proof (cases "listing s")
    case None
    with True assms show ?thesis by (simp add: main_def Let_def print_def)
  next
    case (Some entries)
    let ?w2 = "w\<lparr>files := (files w)(creds_path \<mapsto> creds_json),
                  environ := (environ w)(''GOOGLE_APPLICATION_CREDENTIALS'' \<mapsto> creds_path)\<rparr>"
    let ?up = "upload_files bucket_name (''uncertainty_reports/'' @ utc_date s) (report_dir s)
                 entries ?w2"
    have f: "files (snd ?up) = (files w)(creds_path \<mapsto> creds_json)"
      by (simp add: upload_files_files)
    have r: "fst ?up = Returned \<longleftrightarrow> list_all (\<lambda>(name, is_file, ok). is_file \<longrightarrow> ok) entries"
      by (rule upload_files_returns)
    obtain e w3 where up: "?up = (e, w3)" by (cases ?up)
    with f r True Some assms show ?thesis
      by (cases e) (simp_all add: main_def Let_def print_def)
  qed
qed

text \<open>
  Claim C9 says that the staged key file is gone after every run. The code removes it on
  line 38 only: when the reports directory does not exist, \<open>main\<close> returns on line 29,
  normally, and the file is still there with the key in it.
\<close>

theorem C9_key_file_left_behind:
  \<open>fst (main no_reports configured) = Returned
   \<and> files (snd (main no_reports configured)) creds_path = Some ''{"private_key":"k"}''\<close>
  by (simp add: main_def no_reports_def configured_def print_def creds_path_def)

end
